theory Spec2Isabelle
  imports Main "HOL-Library.Word"
begin

section \<open>The io\_uring sendmsg reproducer (uring\_sendmsg.c)\<close>

text \<open>
  The program has two execution contexts of its own: \<open>main\<close> and the thread running
  \<open>uffd_thread\<close>. Everything else (the kernel behind the system calls, the consumer of the
  submission ring, the addresses the platform picks for local variables) is the environment:
  its answers are the fields of the record \<open>env\<close>, and every definition below is a function
  of them. A system call that never returns is the answer \<open>None\<close>. Two things the kernel
  keeps are not left open but modelled, each where it is defined: the identity a completion
  entry carries (\<open>consumer_post\<close>) and the contents of the trapped region (\<open>trap_copy\<close>).
\<close>

subsection \<open>Structures\<close>

type_synonym u8 = "8 word"
type_synonym u16 = "16 word"
type_synonym u32 = "32 word"
type_synonym s32 = "32 word"
type_synonym u64 = "64 word"

text \<open>\<open>struct iovec\<close>: a base address and a length.\<close>

record iovec =
  iov_base :: u64
  iov_len :: u64

text \<open>
  \<open>struct io_uring_sqe\<close> of \<open>linux/io_uring.h\<close> (v5.3). The source names \<open>opcode\<close>,
  \<open>fd\<close> and \<open>addr\<close>; the compound literal of \<open>main\<close> zeroes the other fields.
\<close>

record io_uring_sqe =
  opcode :: u8
  sqe_flags :: u8
  ioprio :: u16
  fd :: s32
  off :: u64
  addr :: u64
  sqe_len :: u32
  msg_flags :: u32
  user_data :: u64
  pad2 :: "u64 \<times> u64 \<times> u64"

text \<open>\<open>struct io_uring_cqe\<close>: the completion record the consumer posts.\<close>

record io_uring_cqe =
  cqe_user_data :: u64
  res :: s32
  cqe_flags :: u32

text \<open>\<open>struct msghdr\<close>, with the four fields \<open>main\<close> sets; the others are zero.\<close>

record msghdr =
  msg_name :: u64
  msg_namelen :: u32
  msg_iov :: u64
  msg_iovlen :: u64

text \<open>
  \<open>struct uffdio_copy\<close>: the request of the \<open>UFFDIO_COPY\<close> ioctl. The initializer of
  \<open>uffd_thread\<close> sets \<open>dst\<close>, \<open>src\<close> and \<open>len\<close>; \<open>mode\<close> is zero.
\<close>

record uffdio_copy =
  dst :: u64
  src :: u64
  len :: u64
  mode :: u64

definition IORING_OP_SENDMSG :: u8 where
  "IORING_OP_SENDMSG = 9"

definition IORING_OP_RECVMSG :: u8 where
  "IORING_OP_RECVMSG = 10"

text \<open>The \<open>entries\<close> argument of \<open>io_uring_setup\<close> (line 89): the capacity asked for.\<close>

definition entries :: nat where
  "entries = 10"

text \<open>\<open>sizeof(struct uffd_msg)\<close>.\<close>

definition sizeof_uffd_msg :: int where
  "sizeof_uffd_msg = 32"

text \<open>
  \<open>sizeof(msgbuf)\<close>: the packed structure of \<open>main\<close> holds a \<open>struct nlmsghdr\<close> (16 bytes),
  a \<open>struct ifaddrmsg\<close> (8), a \<open>struct rtattr\<close> (4) and four address bytes.
\<close>

definition sizeof_msgbuf :: u64 where
  "sizeof_msgbuf = 16 + 8 + 4 + 4"

text \<open>\<open>sizeof(struct sockaddr_nl)\<close>.\<close>

definition sizeof_sockaddr_nl :: u32 where
  "sizeof_sockaddr_nl = 12"

subsection \<open>Process memory\<close>

text \<open>
  The file-scope variables \<open>uffd\<close>, \<open>iov\<close>, \<open>real_iov\<close> and \<open>sqes\<close> (the mapped array of
  submission entries, indexed from 0), the local \<open>msg\<close> of \<open>main\<close> whose address is handed to
  the consumer, and the mapped rings behind \<open>sq_ring\<close> and \<open>cq_ring\<close>: the submission index
  array, the four cursors and the completion entries.
\<close>

record state =
  uffd :: int
  iov :: u64
  real_iov :: iovec
  sqes :: "nat \<Rightarrow> io_uring_sqe"
  msg :: msghdr
  sq_array :: "nat \<Rightarrow> s32"
  sq_head :: u32
  sq_tail :: s32
  cq_head :: u32
  cq_tail :: s32
  cqes :: "nat \<Rightarrow> io_uring_cqe"

subsection \<open>Environment\<close>

record env =
  io_uring_setup_ret :: int
  mmap_sq_ring_ret :: u64
  mmap_cq_ring_ret :: u64
  mmap_sqes_ret :: u64
  mmap_iov_ret :: u64
  userfaultfd_ret :: int
  ioctl_api_ret :: int
  ioctl_register_ret :: int
  pthread_create_ret :: int
  socket_ret :: int
  io_uring_enter_ret :: "int option"
  uffd_read_ret :: "int option"
  ioctl_copy_ret :: int
  posted_sq_head :: u32
  posted_cq_tail :: s32
  posted_cqes :: "nat \<Rightarrow> io_uring_cqe"
  addr_of_sockaddr :: u64
  addr_of_msgbuf :: u64
  addr_of_msg :: u64
  addr_of_vec :: u64

subsection \<open>Observable steps\<close>

text \<open>The lines the program prints, with the values of their \<open>%d\<close> arguments.\<close>

datatype printed =
    Got_userfaultfd_message
  | Submitted_getevents_done int
  | Cq_tail_is int
  | Result int
  | Result_strerror int int

text \<open>
  The steps of a run that the properties speak about, in program order: system calls with
  their arguments and answers, stores to shared memory, and prints.
\<close>

datatype event =
    Ev_uffd_register u64 u64
  | Ev_store_sqe nat io_uring_sqe
  | Ev_io_uring_enter nat nat
  | Ev_read_uffd int
  | Ev_printf printed
  | Ev_store_opcode nat u8
  | Ev_ioctl_copy uffdio_copy "u8 list" int

text \<open>
  How a context ends: the process exits with a status (\<open>err\<close>, \<open>errx\<close>, or \<open>main\<close>
  reaching its end), the function returns to its caller, or it stays blocked in a system
  call for ever.
\<close>

datatype outcome = Exit int | Return | Hang

record run =
  trace :: "event list"
  mem :: state
  outcome :: outcome

text \<open>\<open>err(1, ...)\<close> and \<open>errx(1, ...)\<close>: the process exits with status 1.\<close>

definition die :: "event list \<Rightarrow> state \<Rightarrow> run" where
  "die tr s = \<lparr>trace = tr, mem = s, outcome = Exit 1\<rparr>"

text \<open>\<open>SYSCHK(x)\<close> fails when the value is \<open>-1\<close> cast to the type of \<open>x\<close>.\<close>

definition SYSCHK_fails :: "int \<Rightarrow> bool" where
  "SYSCHK_fails r = (r = - 1)"

definition SYSCHK_ptr_fails :: "u64 \<Rightarrow> bool" where
  "SYSCHK_ptr_fails p = (p = - 1)"

subsection \<open>The buffer handed to \<open>UFFDIO_COPY\<close>\<close>

text \<open>A 64-bit value as it lies in memory, least significant byte first.\<close>

definition le_bytes :: "u64 \<Rightarrow> u8 list" where
  "le_bytes w =
     [ucast w, ucast (drop_bit 8 w), ucast (drop_bit 16 w), ucast (drop_bit 24 w),
      ucast (drop_bit 32 w), ucast (drop_bit 40 w), ucast (drop_bit 48 w),
      ucast (drop_bit 56 w)]"

fun of_le_bytes :: "u8 list \<Rightarrow> u64" where
  "of_le_bytes [] = 0"
| "of_le_bytes (b # bs) = or (ucast b) (push_bit 8 (of_le_bytes bs))"

definition iovec_bytes :: "iovec \<Rightarrow> u8 list" where
  "iovec_bytes v = le_bytes (iov_base v) @ le_bytes (iov_len v)"

definition iovec_of_bytes :: "u8 list \<Rightarrow> iovec" where
  "iovec_of_bytes bs =
     \<lparr>iov_base = of_le_bytes (take 8 bs), iov_len = of_le_bytes (take 8 (drop 8 bs))\<rparr>"

text \<open>
  \<open>union { struct iovec iov; char pad[0x1000]; } vec = { .iov = real_iov }\<close>: an object of
  \<open>0x1000\<close> bytes that starts with the \<open>iovec\<close>; the bytes the initializer does not name
  are zero.
\<close>

definition vec_union :: "iovec \<Rightarrow> u8 list" where
  "vec_union v = iovec_bytes v @ replicate (0x1000 - 16) 0"

subsection \<open>The fault-handler thread\<close>

text \<open>Line 69: \<open>sqes[0].opcode = IORING_OP_SENDMSG\<close>.\<close>

definition store_opcode :: "state \<Rightarrow> state" where
  "store_opcode s = s\<lparr>sqes := (sqes s)(0 := (sqes s 0)\<lparr>opcode := IORING_OP_SENDMSG\<rparr>)\<rparr>"

text \<open>
  Lines 71 to 82: \<open>vec\<close> is built from \<open>real_iov\<close>, the request names \<open>iov\<close> as
  destination, the address of \<open>vec\<close> as source and \<open>0x1000\<close> as length, and
  \<open>SYSCHK(ioctl(uffd, UFFDIO_COPY, &copy))\<close> ends the process when the ioctl answers
  \<open>-1\<close>. The first argument is the answer of the ioctl, the second the address of \<open>vec\<close>.
\<close>

definition copy_page :: "int \<Rightarrow> u64 \<Rightarrow> state \<Rightarrow> run" where
  "copy_page ret vec_addr s =
     (let vec = vec_union (real_iov s);
          copy = \<lparr>dst = iov s, src = vec_addr, len = 0x1000, mode = 0\<rparr>;
          tr = [Ev_ioctl_copy copy vec ret]
      in if SYSCHK_fails ret then die tr s
         else \<lparr>trace = tr, mem = s, outcome = Return\<rparr>)"

text \<open>Lines 71 to 81 alone: the request and the bytes of \<open>vec\<close> it names as source.\<close>

definition copy_request :: "u64 \<Rightarrow> state \<Rightarrow> uffdio_copy \<times> u8 list" where
  "copy_request vec_addr s =
     (\<lparr>dst = iov s, src = vec_addr, len = 0x1000, mode = 0\<rparr>, vec_union (real_iov s))"

text \<open>
  Modelled from the spec: the trapped region behind \<open>UFFDIO_COPY\<close> is kept by the kernel
  and is not in the source. As section 4.1 of the spec describes \<open>populate\<close>, and as the
  ioctl answers on Linux (\<open>EEXIST\<close> for a page that is already there), a region that is
  not populated (\<open>None\<close>) takes the \<open>len\<close> bytes at the source and the call answers 0; a
  populated region keeps its contents and the call answers \<open>-1\<close>.
\<close>

definition trap_copy :: "u8 list option \<Rightarrow> uffdio_copy \<Rightarrow> u8 list \<Rightarrow> int \<times> u8 list option" where
  "trap_copy page c bs =
     (case page of
        None \<Rightarrow> (0, Some (take (unat (len c)) bs))
      | Some old \<Rightarrow> (- 1, Some old))"

text \<open>
  The copy step of lines 71 to 82 run against such a region: the program's memory and the
  contents of the region go in, the run of the step and the new contents come out.
\<close>

definition populate :: "u64 \<Rightarrow> state \<times> u8 list option \<Rightarrow> run \<times> u8 list option" where
  "populate vec_addr sp =
     (let (c, bs) = copy_request vec_addr (fst sp);
          (ret, page) = trap_copy (snd sp) c bs
      in (copy_page ret vec_addr (fst sp), page))"

text \<open>
  \<open>uffd_thread\<close>, lines 63 to 84: a blocking \<open>read\<close> on the userfaultfd, the check of its
  result, the print, the store to \<open>sqes[0].opcode\<close>, and \<open>UFFDIO_COPY\<close> of \<open>vec\<close> to \<open>iov\<close>.
\<close>

definition uffd_thread :: "env \<Rightarrow> state \<Rightarrow> run" where
  "uffd_thread e s =
     (case uffd_read_ret e of
        None \<Rightarrow> \<lparr>trace = [], mem = s, outcome = Hang\<rparr>
      | Some r \<Rightarrow>
          if SYSCHK_fails r then die [Ev_read_uffd r] s
          else if r \<noteq> sizeof_uffd_msg then die [Ev_read_uffd r] s
          else
            let s1 = store_opcode s;
                c = copy_page (ioctl_copy_ret e) (addr_of_vec e) s1
            in \<lparr>trace = [Ev_read_uffd r, Ev_printf Got_userfaultfd_message,
                         Ev_store_opcode 0 IORING_OP_SENDMSG] @ trace c,
                mem = mem c, outcome = outcome c\<rparr>)"

subsection \<open>The main context\<close>

text \<open>
  Lines 147 to 153: the entry is written to \<open>sqes[0]\<close>, index 0 is written to slot 0 of the
  submission index array, and the submission tail is incremented.
\<close>

definition main_submit :: "io_uring_sqe \<Rightarrow> state \<Rightarrow> state" where
  "main_submit d s =
     s\<lparr>sqes := (sqes s)(0 := d),
       sq_array := (sq_array s)(0 := 0),
       sq_tail := sq_tail s + 1\<rparr>"

text \<open>The compound literal of line 147.\<close>

definition recvmsg_sqe :: "int \<Rightarrow> u64 \<Rightarrow> io_uring_sqe" where
  "recvmsg_sqe sock msg_addr =
     \<lparr>opcode = IORING_OP_RECVMSG, sqe_flags = 0, ioprio = 0, fd = word_of_int sock,
      off = 0, addr = msg_addr, sqe_len = 0, msg_flags = 0, user_data = 0,
      pad2 = (0, 0, 0)\<rparr>"

text \<open>
  Lines 88 to 153: ring set-up, the trapped page and its registration, the thread, the
  socket, the message, and the submission. Each \<open>SYSCHK\<close> and the check of
  \<open>pthread_create\<close> ends the process with status 1.
\<close>

definition main_prepare :: "env \<Rightarrow> state \<Rightarrow> run" where
  "main_prepare e s =
     (if SYSCHK_fails (io_uring_setup_ret e) then die [] s
      else if SYSCHK_ptr_fails (mmap_sq_ring_ret e) then die [] s
      else if SYSCHK_ptr_fails (mmap_cq_ring_ret e) then die [] s
      else if SYSCHK_ptr_fails (mmap_sqes_ret e) then die [] s
      else if SYSCHK_ptr_fails (mmap_iov_ret e) then die [] s
      else
        let s1 = s\<lparr>iov := mmap_iov_ret e\<rparr> in
        if SYSCHK_fails (userfaultfd_ret e) then die [] s1
        else
          let s2 = s1\<lparr>uffd := userfaultfd_ret e\<rparr> in
          if SYSCHK_fails (ioctl_api_ret e) then die [] s2
          else if SYSCHK_fails (ioctl_register_ret e) then die [Ev_uffd_register (iov s2) 0x1000] s2
          else if pthread_create_ret e \<noteq> 0 then die [Ev_uffd_register (iov s2) 0x1000] s2
          else if SYSCHK_fails (socket_ret e) then die [Ev_uffd_register (iov s2) 0x1000] s2
          else
            let s3 = s2\<lparr>real_iov := \<lparr>iov_base = addr_of_msgbuf e, iov_len = sizeof_msgbuf\<rparr>,
                        msg := \<lparr>msg_name = addr_of_sockaddr e, msg_namelen = sizeof_sockaddr_nl,
                                msg_iov = iov s2, msg_iovlen = 1\<rparr>\<rparr>;
                d = recvmsg_sqe (socket_ret e) (addr_of_msg e);
                s4 = main_submit d s3
            in \<lparr>trace = [Ev_uffd_register (iov s2) 0x1000, Ev_store_sqe 0 d],
                mem = s4, outcome = Return\<rparr>)"

text \<open>
  Modelled from the spec: the consumer of the ring is the kernel and is not in the source.
  By the time \<open>io_uring_enter\<close> returns it has advanced the submission head and the
  completion tail and written the completion entries; their values are answers of the
  environment, except the identity: as the data model of the spec has it (a completion
  record carries the identity of its descriptor), entry \<open>i\<close> carries the \<open>user_data\<close> that
  the submitted entry named by slot \<open>i\<close> of the index array has in memory at that time.
\<close>

definition consumer_post :: "env \<Rightarrow> state \<Rightarrow> state" where
  "consumer_post e s =
     s\<lparr>sq_head := posted_sq_head e, cq_tail := posted_cq_tail e,
       cqes := (\<lambda>i. (posted_cqes e i)\<lparr>cqe_user_data := user_data (sqes s (unat (sq_array s i)))\<rparr>)\<rparr>"

text \<open>
  Lines 155 to 165, after \<open>io_uring_enter\<close> returned \<open>submitted\<close>: two prints, the check
  \<open>cq_tail == 1\<close>, the print of \<open>cqe->res\<close> of the first completion entry, and the end of
  \<open>main\<close> (exit status 0).
\<close>

definition main_finish :: "int \<Rightarrow> event list \<Rightarrow> state \<Rightarrow> run" where
  "main_finish submitted tr s =
     (let tr1 = tr @ [Ev_printf (Submitted_getevents_done submitted),
                      Ev_printf (Cq_tail_is (sint (cq_tail s)))]
      in if cq_tail s \<noteq> 1 then die tr1 s
         else
           let r = res (cqes s 0);
               line = (if sint r < 0 then Result_strerror (sint r) (sint (- r))
                       else Result (sint r))
           in \<lparr>trace = tr1 @ [Ev_printf line], mem = s, outcome = Exit 0\<rparr>)"

text \<open>
  Line 154 and what follows: \<open>io_uring_enter\<close> with \<open>to_submit = 1\<close> and
  \<open>min_complete = 1\<close> blocks until the kernel returns from it.
\<close>

definition main_enter :: "env \<Rightarrow> event list \<Rightarrow> state \<Rightarrow> run" where
  "main_enter e tr s =
     (case io_uring_enter_ret e of
        None \<Rightarrow> \<lparr>trace = tr, mem = s, outcome = Hang\<rparr>
      | Some r \<Rightarrow>
          if SYSCHK_fails r then die tr s
          else main_finish r tr (consumer_post e s))"

subsection \<open>The process\<close>

text \<open>
  The thread is created before the submission and blocks in \<open>read\<close>. Nothing in the program
  touches the trapped page, so a fault message can only come from the consumer, after
  \<open>io_uring_enter\<close> was called: when the environment delivers one, the handler runs while
  \<open>main\<close> is inside \<open>io_uring_enter\<close>; when it delivers none, the handler stays blocked and
  \<open>main\<close> goes on alone. An \<open>err\<close> in the handler ends the whole process.
\<close>

definition process :: "env \<Rightarrow> state \<Rightarrow> run" where
  "process e s =
     (let p = main_prepare e s in
      if outcome p \<noteq> Return then p
      else
        let tr = trace p @ [Ev_io_uring_enter 1 1] in
        case uffd_read_ret e of
          None \<Rightarrow> main_enter e tr (mem p)
        | Some _ \<Rightarrow>
            let h = uffd_thread e (mem p) in
            if outcome h \<noteq> Return
            then \<lparr>trace = tr @ trace h, mem = mem h, outcome = outcome h\<rparr>
            else main_enter e (tr @ trace h) (mem h))"







fun is_mutation :: "event \<Rightarrow> bool" where
  "is_mutation (Ev_store_opcode i v) = True"
| "is_mutation _ = False"

fun is_populate :: "event \<Rightarrow> bool" where
  "is_populate (Ev_ioctl_copy c bs r) = True"
| "is_populate _ = False"

fun is_submission :: "event \<Rightarrow> bool" where
  "is_submission (Ev_io_uring_enter a b) = True"
| "is_submission _ = False"

fun is_store_sqe :: "event \<Rightarrow> bool" where
  "is_store_sqe (Ev_store_sqe i d) = True"
| "is_store_sqe _ = False"

fun is_result :: "event \<Rightarrow> bool" where
  "is_result (Ev_printf (Result r)) = True"
| "is_result (Ev_printf (Result_strerror r m)) = True"
| "is_result _ = False"

subsection \<open>Conditions on the environment\<close>

text \<open>Every check of lines 88 to 109 passes.\<close>

definition setup_ok :: "env \<Rightarrow> bool" where
  "setup_ok e =
     (\<not> SYSCHK_fails (io_uring_setup_ret e) \<and> \<not> SYSCHK_ptr_fails (mmap_sq_ring_ret e) \<and>
      \<not> SYSCHK_ptr_fails (mmap_cq_ring_ret e) \<and> \<not> SYSCHK_ptr_fails (mmap_sqes_ret e) \<and>
      \<not> SYSCHK_ptr_fails (mmap_iov_ret e) \<and> \<not> SYSCHK_fails (userfaultfd_ret e) \<and>
      \<not> SYSCHK_fails (ioctl_api_ret e) \<and> \<not> SYSCHK_fails (ioctl_register_ret e) \<and>
      pthread_create_ret e = 0 \<and> \<not> SYSCHK_fails (socket_ret e))"

text \<open>
  The handler was woken and one of its two checks failed: the \<open>read\<close> did not return a
  whole \<open>struct uffd_msg\<close>, or \<open>UFFDIO_COPY\<close> answered \<open>-1\<close>.
\<close>

definition handler_failed :: "env \<Rightarrow> bool" where
  "handler_failed e =
     (case uffd_read_ret e of
        None \<Rightarrow> False
      | Some r \<Rightarrow> r \<noteq> sizeof_uffd_msg \<or> SYSCHK_fails (ioctl_copy_ret e))"


text \<open>The memory after lines 88 to 153 when every check passed.\<close>

definition prepared :: "env \<Rightarrow> state \<Rightarrow> state" where
  "prepared e s =
     main_submit (recvmsg_sqe (socket_ret e) (addr_of_msg e))
       (s\<lparr>iov := mmap_iov_ret e, uffd := userfaultfd_ret e,
          real_iov := \<lparr>iov_base = addr_of_msgbuf e, iov_len = sizeof_msgbuf\<rparr>,
          msg := \<lparr>msg_name = addr_of_sockaddr e, msg_namelen = sizeof_sockaddr_nl,
                  msg_iov = mmap_iov_ret e, msg_iovlen = 1\<rparr>\<rparr>)"

text \<open>The line \<open>main\<close> prints for the result field of a completion entry.\<close>

definition result_line :: "s32 \<Rightarrow> printed" where
  "result_line r = (if sint r < 0 then Result_strerror (sint r) (sint (- r)) else Result (sint r))"

text \<open>
  The steps of a run up to \<open>UFFDIO_COPY\<close> when set-up succeeded and the handler read a
  whole fault message.
\<close>

definition fault_trace :: "env \<Rightarrow> event list" where
  "fault_trace e =
     [Ev_uffd_register (mmap_iov_ret e) 0x1000,
      Ev_store_sqe 0 (recvmsg_sqe (socket_ret e) (addr_of_msg e)),
      Ev_io_uring_enter 1 1,
      Ev_read_uffd sizeof_uffd_msg, Ev_printf Got_userfaultfd_message,
      Ev_store_opcode 0 IORING_OP_SENDMSG,
      Ev_ioctl_copy \<lparr>dst = mmap_iov_ret e, src = addr_of_vec e, len = 0x1000, mode = 0\<rparr>
        (vec_union \<lparr>iov_base = addr_of_msgbuf e, iov_len = sizeof_msgbuf\<rparr>)
        (ioctl_copy_ret e)]"

text \<open>A concrete environment in which every call succeeds, and a fresh memory.\<close>

definition zero_sqe :: io_uring_sqe where
  "zero_sqe = \<lparr>opcode = 0, sqe_flags = 0, ioprio = 0, fd = 0, off = 0, addr = 0,
     sqe_len = 0, msg_flags = 0, user_data = 0, pad2 = (0, 0, 0)\<rparr>"

definition fresh :: state where
  "fresh = \<lparr>uffd = - 1, iov = 0, real_iov = \<lparr>iov_base = 0, iov_len = 0\<rparr>,
     sqes = (\<lambda>_. zero_sqe),
     msg = \<lparr>msg_name = 0, msg_namelen = 0, msg_iov = 0, msg_iovlen = 0\<rparr>,
     sq_array = (\<lambda>_. 0), sq_head = 0, sq_tail = 0, cq_head = 0, cq_tail = 0,
     cqes = (\<lambda>_. \<lparr>cqe_user_data = 0, res = 0, cqe_flags = 0\<rparr>)\<rparr>"

definition good_env :: env where
  "good_env = \<lparr>io_uring_setup_ret = 3, mmap_sq_ring_ret = 0x7f0000001000,
     mmap_cq_ring_ret = 0x7f0000002000, mmap_sqes_ret = 0x7f0000003000,
     mmap_iov_ret = 0x7f0000004000, userfaultfd_ret = 4, ioctl_api_ret = 0,
     ioctl_register_ret = 0, pthread_create_ret = 0, socket_ret = 5,
     io_uring_enter_ret = Some 1, uffd_read_ret = Some 32, ioctl_copy_ret = 0,
     posted_sq_head = 1, posted_cq_tail = 1,
     posted_cqes = (\<lambda>_. \<lparr>cqe_user_data = 0, res = 32, cqe_flags = 0\<rparr>),
     addr_of_sockaddr = 0x7ffc00000100, addr_of_msgbuf = 0x7ffc00000200,
     addr_of_msg = 0x7ffc00000300, addr_of_vec = 0x7f0000100000\<rparr>"

text \<open>
  The memory after the submission and a posted completion, with the handler not yet run.
\<close>

definition completed_state :: state where
  "completed_state = consumer_post good_env (prepared good_env fresh)"

text \<open>
  Completion entries that agree with those of \<open>good_env\<close> on the result field and on
  nothing else.
\<close>

definition other_cqes :: "nat \<Rightarrow> io_uring_cqe" where
  "other_cqes = (\<lambda>i. \<lparr>cqe_user_data = 7, res = (if i = 0 then 32 else 5), cqe_flags = 1\<rparr>)"


text \<open>An environment that never answers the two blocking calls.\<close>

definition silent_env :: env where
  "silent_env = good_env\<lparr>io_uring_enter_ret := None, uffd_read_ret := None\<rparr>"

text \<open>An environment in which the socket cannot be opened.\<close>

definition no_socket_env :: env where
  "no_socket_env = good_env\<lparr>socket_ret := - 1\<rparr>"

text \<open>Two entries that differ in their file descriptor.\<close>

definition first_sqe :: io_uring_sqe where
  "first_sqe = recvmsg_sqe 5 0x7ffc00000300"

definition second_sqe :: io_uring_sqe where
  "second_sqe = recvmsg_sqe 6 0x7ffc00000300"

text \<open>
  The submission of lines 147 to 153 repeated \<open>entries\<close> times from the fresh memory,
  with nothing consumed: the head is still 0.
\<close>

definition full_ring :: state where
  "full_ring = (main_submit first_sqe ^^ entries) fresh"


section \<open>Facts about the steps\<close>

subsection \<open>The copied buffer\<close>

lemma length_le_bytes: "length (le_bytes w) = 8"
  by (simp add: le_bytes_def)

lemma low_byte_split:
  "or (ucast (ucast (drop_bit k w) :: u8)) (push_bit 8 (drop_bit (k + 8) w)) = drop_bit k (w :: u64)"
proof (rule bit_word_eqI)
  fix n :: nat
  assume "n < LENGTH(64)"
  then have n: "n < 64" by simp
  show "bit (or (ucast (ucast (drop_bit k w) :: u8)) (push_bit 8 (drop_bit (k + 8) w))) n
      = bit (drop_bit k w) n"
  proof (cases "n < 8")
    case True
    then show ?thesis by (simp add: bit_simps)
  next
    case False
    then have "k + 8 + (n - 8) = k + n" by simp
    with False n show ?thesis by (simp add: bit_simps)
  qed
qed

lemma top_byte: "ucast (ucast (drop_bit 56 w) :: u8) = drop_bit 56 (w :: u64)"
  by (rule bit_word_eqI) (auto simp: bit_simps dest: bit_imp_le_length)

lemma of_le_bytes_le_bytes: "of_le_bytes (le_bytes w) = w"
  using low_byte_split [of 0 w] low_byte_split [of 8 w] low_byte_split [of 16 w]
    low_byte_split [of 24 w] low_byte_split [of 32 w] low_byte_split [of 40 w]
    low_byte_split [of 48 w]
  by (simp add: le_bytes_def top_byte)

lemma length_iovec_bytes: "length (iovec_bytes v) = 16"
  by (simp add: iovec_bytes_def length_le_bytes)

lemma iovec_of_iovec_bytes: "iovec_of_bytes (iovec_bytes v) = v"
  by (simp add: iovec_of_bytes_def iovec_bytes_def of_le_bytes_le_bytes length_le_bytes)

lemma length_vec_union: "length (vec_union v) = 0x1000"
  by (simp add: vec_union_def length_iovec_bytes)

lemma take_vec_union: "take 16 (vec_union v) = iovec_bytes v"
  by (simp add: vec_union_def length_iovec_bytes)

lemma drop_vec_union: "drop 16 (vec_union v) = replicate (0x1000 - 16) 0"
  by (simp add: vec_union_def length_iovec_bytes)

subsection \<open>Runs of the handler\<close>

lemma copy_page_run:
  "copy_page ret a s =
     \<lparr>trace = [Ev_ioctl_copy \<lparr>dst = iov s, src = a, len = 0x1000, mode = 0\<rparr>
                 (vec_union (real_iov s)) ret],
      mem = s, outcome = (if ret = - 1 then Exit 1 else Return)\<rparr>"
  by (simp add: copy_page_def Let_def SYSCHK_fails_def die_def)

lemma uffd_thread_blocked:
  "uffd_read_ret e = None \<Longrightarrow> uffd_thread e s = \<lparr>trace = [], mem = s, outcome = Hang\<rparr>"
  by (simp add: uffd_thread_def)

lemma uffd_thread_bad_read:
  "uffd_read_ret e = Some r \<Longrightarrow> r \<noteq> sizeof_uffd_msg \<Longrightarrow>
   uffd_thread e s = \<lparr>trace = [Ev_read_uffd r], mem = s, outcome = Exit 1\<rparr>"
  by (simp add: uffd_thread_def SYSCHK_fails_def die_def)

lemma uffd_thread_fault:
  "uffd_read_ret e = Some sizeof_uffd_msg \<Longrightarrow>
   uffd_thread e s =
     \<lparr>trace = [Ev_read_uffd sizeof_uffd_msg, Ev_printf Got_userfaultfd_message,
               Ev_store_opcode 0 IORING_OP_SENDMSG,
               Ev_ioctl_copy \<lparr>dst = iov s, src = addr_of_vec e, len = 0x1000, mode = 0\<rparr>
                 (vec_union (real_iov s)) (ioctl_copy_ret e)],
      mem = store_opcode s,
      outcome = (if ioctl_copy_ret e = - 1 then Exit 1 else Return)\<rparr>"
  by (simp add: uffd_thread_def copy_page_run Let_def SYSCHK_fails_def sizeof_uffd_msg_def
      store_opcode_def)

lemma uffd_thread_cases:
  obtains (blocked) "uffd_read_ret e = None"
  | (bad) r where "uffd_read_ret e = Some r" "r \<noteq> sizeof_uffd_msg"
  | (fault) "uffd_read_ret e = Some sizeof_uffd_msg"
  by (cases "uffd_read_ret e") auto

lemma uffd_thread_mem:
  "mem (uffd_thread e s) = (if uffd_read_ret e = Some sizeof_uffd_msg then store_opcode s else s)"
  by (cases e rule: uffd_thread_cases)
    (simp_all add: uffd_thread_blocked uffd_thread_bad_read uffd_thread_fault)

subsection \<open>Runs of the process\<close>

lemma main_prepare_ok:
  "setup_ok e \<Longrightarrow>
   main_prepare e s =
     \<lparr>trace = [Ev_uffd_register (mmap_iov_ret e) 0x1000,
               Ev_store_sqe 0 (recvmsg_sqe (socket_ret e) (addr_of_msg e))],
      mem = prepared e s, outcome = Return\<rparr>"
  by (simp add: setup_ok_def main_prepare_def prepared_def Let_def)

lemma main_prepare_fail:
  "\<not> setup_ok e \<Longrightarrow>
   outcome (main_prepare e s) = Exit 1 \<and>
   (trace (main_prepare e s) = [] \<or>
    trace (main_prepare e s) = [Ev_uffd_register (mmap_iov_ret e) 0x1000]) \<and>
   (mem (main_prepare e s))\<lparr>iov := iov s, uffd := uffd s\<rparr> = s"
  by (auto simp add: setup_ok_def main_prepare_def Let_def die_def)

lemma main_finish_run:
  "main_finish n tr s =
     (if cq_tail s \<noteq> 1
      then \<lparr>trace = tr @ [Ev_printf (Submitted_getevents_done n),
                            Ev_printf (Cq_tail_is (sint (cq_tail s)))],
            mem = s, outcome = Exit 1\<rparr>
      else \<lparr>trace = tr @ [Ev_printf (Submitted_getevents_done n),
                            Ev_printf (Cq_tail_is 1),
                            Ev_printf (result_line (res (cqes s 0)))],
            mem = s, outcome = Exit 0\<rparr>)"
  by (simp add: main_finish_def Let_def die_def result_line_def)

lemma main_enter_run:
  "main_enter e tr s =
     (case io_uring_enter_ret e of
        None \<Rightarrow> \<lparr>trace = tr, mem = s, outcome = Hang\<rparr>
      | Some n \<Rightarrow>
          if n = - 1 then \<lparr>trace = tr, mem = s, outcome = Exit 1\<rparr>
          else if posted_cq_tail e \<noteq> 1
          then \<lparr>trace = tr @ [Ev_printf (Submitted_getevents_done n),
                                Ev_printf (Cq_tail_is (sint (posted_cq_tail e)))],
                mem = consumer_post e s, outcome = Exit 1\<rparr>
          else \<lparr>trace = tr @ [Ev_printf (Submitted_getevents_done n),
                                Ev_printf (Cq_tail_is 1),
                                Ev_printf (result_line (res (posted_cqes e 0)))],
                mem = consumer_post e s, outcome = Exit 0\<rparr>)"
  by (simp add: main_enter_def main_finish_run SYSCHK_fails_def die_def consumer_post_def
      split: option.split)

lemma process_setup_failed: "\<not> setup_ok e \<Longrightarrow> process e s = main_prepare e s"
  by (simp add: process_def main_prepare_fail Let_def)

lemma process_blocked_handler:
  "setup_ok e \<Longrightarrow> uffd_read_ret e = None \<Longrightarrow>
   process e s =
     main_enter e [Ev_uffd_register (mmap_iov_ret e) 0x1000,
                   Ev_store_sqe 0 (recvmsg_sqe (socket_ret e) (addr_of_msg e)),
                   Ev_io_uring_enter 1 1] (prepared e s)"
  by (simp add: process_def main_prepare_ok Let_def)

lemma process_bad_read:
  "setup_ok e \<Longrightarrow> uffd_read_ret e = Some r \<Longrightarrow> r \<noteq> sizeof_uffd_msg \<Longrightarrow>
   process e s =
     \<lparr>trace = [Ev_uffd_register (mmap_iov_ret e) 0x1000,
               Ev_store_sqe 0 (recvmsg_sqe (socket_ret e) (addr_of_msg e)),
               Ev_io_uring_enter 1 1, Ev_read_uffd r],
      mem = prepared e s, outcome = Exit 1\<rparr>"
  by (simp add: process_def main_prepare_ok Let_def uffd_thread_bad_read)

lemma process_fault:
  "setup_ok e \<Longrightarrow> uffd_read_ret e = Some sizeof_uffd_msg \<Longrightarrow>
   process e s =
     (if ioctl_copy_ret e = - 1
      then \<lparr>trace = fault_trace e, mem = store_opcode (prepared e s), outcome = Exit 1\<rparr>
      else main_enter e (fault_trace e) (store_opcode (prepared e s)))"
  by (simp add: process_def main_prepare_ok Let_def uffd_thread_fault fault_trace_def
      prepared_def main_submit_def)

lemma process_cases:
  obtains (setup_failed) "\<not> setup_ok e"
  | (blocked) "setup_ok e" "uffd_read_ret e = None"
  | (bad_read) r where "setup_ok e" "uffd_read_ret e = Some r" "r \<noteq> sizeof_uffd_msg"
  | (fault) "setup_ok e" "uffd_read_ret e = Some sizeof_uffd_msg"
  by (cases "uffd_read_ret e") auto

lemma setup_failed_trace:
  "\<not> setup_ok e \<Longrightarrow> \<not> list_ex P (trace (process e s)) \<or>
     trace (process e s) = [Ev_uffd_register (mmap_iov_ret e) 0x1000]"
  using main_prepare_fail [of e s] by (auto simp: process_setup_failed)


lemma good_env_answers:
  "uffd_read_ret good_env = Some 32" "ioctl_copy_ret good_env = 0"
  "io_uring_enter_ret good_env = Some 1" "posted_cq_tail good_env = 1"
  "posted_cqes good_env = (\<lambda>_. \<lparr>cqe_user_data = 0, res = 32, cqe_flags = 0\<rparr>)"
  "socket_ret good_env = 5" "mmap_iov_ret good_env = 0x7f0000004000"
  "addr_of_msg good_env = 0x7ffc00000300" "addr_of_msgbuf good_env = 0x7ffc00000200"
  "addr_of_vec good_env = 0x7f0000100000" "userfaultfd_ret good_env = 4"
  "addr_of_sockaddr good_env = 0x7ffc00000100"
  by (simp_all add: good_env_def)

lemma setup_ok_good_env: "setup_ok good_env"
  by (simp add: setup_ok_def good_env_def SYSCHK_fails_def SYSCHK_ptr_fails_def)

lemma trace_process_good_env:
  "trace (process good_env fresh) =
     fault_trace good_env @
     [Ev_printf (Submitted_getevents_done 1), Ev_printf (Cq_tail_is 1), Ev_printf (Result 32)]"
  using process_fault [OF setup_ok_good_env, of fresh]
  by (simp add: main_enter_run result_line_def sizeof_uffd_msg_def good_env_answers)

lemma outcome_process_good_env: "outcome (process good_env fresh) = Exit 0"
  using process_fault [OF setup_ok_good_env, of fresh]
  by (simp add: main_enter_run sizeof_uffd_msg_def good_env_answers)

subsection \<open>Outcome and memory of the process\<close>

lemma outcome_process:
  "outcome (process e s) =
     (if \<not> setup_ok e \<or> handler_failed e then Exit 1
      else case io_uring_enter_ret e of
             None \<Rightarrow> Hang
           | Some n \<Rightarrow> if SYSCHK_fails n \<or> posted_cq_tail e \<noteq> 1 then Exit 1 else Exit 0)"
proof (cases e rule: process_cases)
  case setup_failed
  then show ?thesis by (simp add: process_setup_failed main_prepare_fail)
next
  case blocked
  then show ?thesis
    by (simp add: process_blocked_handler main_enter_run handler_failed_def SYSCHK_fails_def
        split: option.split)
next
  case (bad_read r)
  then show ?thesis by (simp add: process_bad_read handler_failed_def)
next
  case fault
  then show ?thesis
    by (simp add: process_fault main_enter_run handler_failed_def SYSCHK_fails_def
        split: option.split)
qed


lemma mem_process_exit0:
  "outcome (process e s) = Exit 0 \<Longrightarrow>
   mem (process e s) =
     consumer_post e (if uffd_read_ret e = None then prepared e s
                      else store_opcode (prepared e s))"
proof (cases e rule: process_cases)
  case setup_failed
  moreover assume "outcome (process e s) = Exit 0"
  ultimately show ?thesis by (simp add: process_setup_failed main_prepare_fail)
next
  case blocked
  moreover assume "outcome (process e s) = Exit 0"
  ultimately show ?thesis
    by (simp add: process_blocked_handler main_enter_run split: option.splits if_splits)
next
  case (bad_read r)
  moreover assume "outcome (process e s) = Exit 0"
  ultimately show ?thesis by (simp add: process_bad_read)
next
  case fault
  moreover assume "outcome (process e s) = Exit 0"
  ultimately show ?thesis
    by (simp add: process_fault main_enter_run split: option.splits if_splits)
qed

lemma trace_process_exit0:
  "outcome (process e s) = Exit 0 \<Longrightarrow>
   \<exists>tr n. trace (process e s) =
     tr @ [Ev_printf (Submitted_getevents_done n), Ev_printf (Cq_tail_is 1),
           Ev_printf (result_line (res (posted_cqes e 0)))] \<and>
     \<not> list_ex is_result tr"
proof (cases e rule: process_cases)
  case setup_failed
  moreover assume "outcome (process e s) = Exit 0"
  ultimately show ?thesis by (simp add: process_setup_failed main_prepare_fail)
next
  case blocked
  moreover assume "outcome (process e s) = Exit 0"
  ultimately show ?thesis
    by (simp add: process_blocked_handler main_enter_run split: option.splits if_splits)
next
  case (bad_read r)
  moreover assume "outcome (process e s) = Exit 0"
  ultimately show ?thesis by (simp add: process_bad_read)
next
  case fault
  moreover assume "outcome (process e s) = Exit 0"
  ultimately show ?thesis
    by (simp add: process_fault main_enter_run fault_trace_def split: option.splits if_splits)
qed

lemma env_answers:
  "setup_ok silent_env" "uffd_read_ret silent_env = None" "io_uring_enter_ret silent_env = None"
  "\<not> setup_ok no_socket_env"
  by (simp_all add: silent_env_def no_socket_env_def good_env_def setup_ok_def
      SYSCHK_fails_def SYSCHK_ptr_fails_def)

subsection \<open>Repeated submission\<close>

lemma main_submit_funpow:
  "(main_submit d ^^ Suc n) s =
     s\<lparr>sqes := (sqes s)(0 := d), sq_array := (sq_array s)(0 := 0),
       sq_tail := sq_tail s + of_nat (Suc n)\<rparr>"
proof (induction n)
  case 0
  show ?case by (simp add: main_submit_def fun_upd_def)
next
  case (Suc n)
  have "(main_submit d ^^ Suc (Suc n)) s = main_submit d ((main_submit d ^^ Suc n) s)"
    by simp
  also have "\<dots> = s\<lparr>sqes := (sqes s)(0 := d), sq_array := (sq_array s)(0 := 0),
       sq_tail := sq_tail s + of_nat (Suc (Suc n))\<rparr>"
    unfolding Suc.IH by (simp add: main_submit_def add.assoc)
  finally show ?case .
qed

lemma full_ring_eq:
  "full_ring = fresh\<lparr>sqes := (sqes fresh)(0 := first_sqe), sq_array := (sq_array fresh)(0 := 0),
     sq_tail := 10\<rparr>"
proof -
  have "entries = Suc 9" by (simp add: entries_def)
  then have "full_ring = (main_submit first_sqe ^^ Suc 9) fresh"
    by (simp add: full_ring_def)
  also have "\<dots> = fresh\<lparr>sqes := (sqes fresh)(0 := first_sqe),
      sq_array := (sq_array fresh)(0 := 0), sq_tail := sq_tail fresh + of_nat (Suc 9)\<rparr>"
    by (rule main_submit_funpow)
  finally show ?thesis by (simp add: fresh_def)
qed

subsection \<open>Incrementing the tail\<close>


subsection \<open>The copy request\<close>

lemma populate_in_process:
  assumes "Ev_ioctl_copy c bs r \<in> set (trace (process e s))"
  shows "setup_ok e \<and> uffd_read_ret e = Some sizeof_uffd_msg \<and>
    c = \<lparr>dst = mmap_iov_ret e, src = addr_of_vec e, len = 0x1000, mode = 0\<rparr> \<and>
    bs = vec_union \<lparr>iov_base = addr_of_msgbuf e, iov_len = sizeof_msgbuf\<rparr> \<and>
    r = ioctl_copy_ret e"
proof (cases e rule: process_cases)
  case setup_failed
  with setup_failed_trace [of e "\<lambda>x. x = Ev_ioctl_copy c bs r" s] assms show ?thesis
    by (auto simp: list_ex_iff)
next
  case blocked
  with assms show ?thesis
    by (simp add: process_blocked_handler main_enter_run split: option.splits if_splits)
next
  case (bad_read x)
  with assms show ?thesis by (simp add: process_bad_read)
next
  case fault
  with assms show ?thesis
    by (simp add: process_fault main_enter_run fault_trace_def split: option.splits if_splits)
qed

lemma mem_process_fault:
  assumes "setup_ok e" "uffd_read_ret e = Some sizeof_uffd_msg"
  shows "iov (mem (process e s)) = mmap_iov_ret e \<and>
    msg_iov (msg (mem (process e s))) = mmap_iov_ret e \<and>
    real_iov (mem (process e s)) = \<lparr>iov_base = addr_of_msgbuf e, iov_len = sizeof_msgbuf\<rparr>"
  using assms
  by (simp add: process_fault main_enter_run prepared_def main_submit_def store_opcode_def
      consumer_post_def split: option.split)

lemma register_in_process:
  assumes "setup_ok e" "uffd_read_ret e = Some sizeof_uffd_msg"
  shows "Ev_uffd_register (mmap_iov_ret e) 0x1000 \<in> set (trace (process e s))"
  using assms
  by (simp add: process_fault main_enter_run fault_trace_def split: option.split)

subsection \<open>The race window\<close>



lemma prepared_entry:
  "sqes (prepared e s) 0 = recvmsg_sqe (socket_ret e) (addr_of_msg e) \<and>
   sq_array (prepared e s) 0 = 0 \<and>
   iov (prepared e s) = mmap_iov_ret e \<and> msg_iov (msg (prepared e s)) = mmap_iov_ret e \<and>
   real_iov (prepared e s) = \<lparr>iov_base = addr_of_msgbuf e, iov_len = sizeof_msgbuf\<rparr>"
  by (simp add: prepared_def main_submit_def)



lemma exit0_cases [consumes 1, case_names quiet raced]:
  assumes "outcome (process e s) = Exit 0"
  obtains (quiet) n where "setup_ok e" "uffd_read_ret e = None"
      "io_uring_enter_ret e = Some n" "n \<noteq> - 1" "posted_cq_tail e = 1"
  | (raced) n where "setup_ok e" "uffd_read_ret e = Some sizeof_uffd_msg"
      "ioctl_copy_ret e \<noteq> - 1" "io_uring_enter_ret e = Some n" "n \<noteq> - 1"
      "posted_cq_tail e = 1"
proof (cases e rule: process_cases)
  case setup_failed
  with assms show ?thesis by (simp add: outcome_process)
next
  case blocked
  with assms quiet show ?thesis
    by (auto simp add: outcome_process SYSCHK_fails_def handler_failed_def
        split: option.splits if_splits)
next
  case (bad_read r)
  with assms show ?thesis by (simp add: outcome_process handler_failed_def)
next
  case fault
  with assms raced show ?thesis
    by (auto simp add: outcome_process SYSCHK_fails_def handler_failed_def
        split: option.splits if_splits)
qed


subsection \<open>The copy step against the trapped region\<close>

lemma copy_page_request:
  "trace (copy_page ret a s) =
     [Ev_ioctl_copy (fst (copy_request a s)) (snd (copy_request a s)) ret]"
  by (simp add: copy_page_run copy_request_def)

lemma populate_fresh_region:
  "populate a (s, None) =
     (\<lparr>trace = [Ev_ioctl_copy \<lparr>dst = iov s, src = a, len = 0x1000, mode = 0\<rparr>
                 (vec_union (real_iov s)) 0],
       mem = s, outcome = Return\<rparr>,
      Some (vec_union (real_iov s)))"
proof -
  have "take 4096 (vec_union (real_iov s)) = vec_union (real_iov s)"
    by (simp add: length_vec_union)
  then show ?thesis
    by (simp add: populate_def copy_request_def trap_copy_def copy_page_run)
qed

lemma populate_populated_region:
  "populate a (s, Some old) =
     (\<lparr>trace = [Ev_ioctl_copy \<lparr>dst = iov s, src = a, len = 0x1000, mode = 0\<rparr>
                 (vec_union (real_iov s)) (- 1)],
       mem = s, outcome = Exit 1\<rparr>,
      Some old)"
  by (simp add: populate_def copy_request_def trap_copy_def copy_page_run)

subsection \<open>Cursors over set-up and over a run\<close>



section \<open>The claims\<close>



text \<open>
  C2, as stated, fails: no wait of the program takes a timeout. When the environment never
  delivers a fault message the handler stays in \<open>read\<close>, and when it also never returns
  from \<open>io_uring_enter\<close> the whole process blocks for ever.
\<close>

theorem waits_can_block_forever:
  "outcome (uffd_thread silent_env fresh) = Hang \<and> outcome (process silent_env fresh) = Hang"
  by (simp add: uffd_thread_blocked outcome_process env_answers handler_failed_def)

text \<open>
  C2, amended: the handler blocks for ever exactly when no fault message is delivered, and
  otherwise ends; the process blocks for ever exactly when set-up succeeded, the handler
  did not end the process, and \<open>io_uring_enter\<close> never returns. There is no outcome for
  a race that was not triggered: with no fault message the run goes on as soon as
  \<open>io_uring_enter\<close> returns.
\<close>

theorem waits_end_only_when_answered:
  "(outcome (uffd_thread e s) = Hang \<longleftrightarrow> uffd_read_ret e = None)
   \<and> (outcome (process e s) = Hang \<longleftrightarrow>
        setup_ok e \<and> \<not> handler_failed e \<and> io_uring_enter_ret e = None)
   \<and> (io_uring_enter_ret e \<noteq> None \<longrightarrow>
        outcome (process e s) = Exit 0 \<or> outcome (process e s) = Exit 1)"
proof (intro conjI impI)
  show "outcome (uffd_thread e s) = Hang \<longleftrightarrow> uffd_read_ret e = None"
    by (cases e rule: uffd_thread_cases)
      (simp_all add: uffd_thread_blocked uffd_thread_bad_read uffd_thread_fault)
  show "outcome (process e s) = Hang \<longleftrightarrow>
        setup_ok e \<and> \<not> handler_failed e \<and> io_uring_enter_ret e = None"
    by (simp add: outcome_process split: option.splits)
next
  assume "io_uring_enter_ret e \<noteq> None"
  then show "outcome (process e s) = Exit 0 \<or> outcome (process e s) = Exit 1"
    by (auto simp add: outcome_process split: option.splits)
qed

theorem waits_end_only_when_answered_witness:
  "io_uring_enter_ret good_env \<noteq> None \<and> outcome (process good_env fresh) = Exit 0 \<and>
   outcome (uffd_thread good_env fresh) \<noteq> Hang \<and>
   setup_ok silent_env \<and> \<not> handler_failed silent_env \<and>
   io_uring_enter_ret silent_env = None \<and> outcome (process silent_env fresh) = Hang"
  using waits_end_only_when_answered [of good_env fresh]
    waits_end_only_when_answered [of silent_env fresh]
  by (simp add: good_env_answers env_answers handler_failed_def outcome_process_good_env)

text \<open>
  C3: populate rejects a second call. Run against a region that is not populated, the copy
  step of lines 71 to 82 succeeds and the region then holds exactly the \<open>0x1000\<close> bytes of
  \<open>vec\<close> that the step supplied. Run against a populated region, from any memory, it
  fails (the ioctl answers \<open>-1\<close> and \<open>SYSCHK\<close> ends the process with status 1) and the
  region keeps its contents; so a second step after a successful first one fails and
  leaves the bytes of the first. The step hands the kernel the request and bytes of
  lines 71 to 81, and a run of the program issues it at most once.
\<close>

theorem populate_rejects_second_call:
  "outcome (fst (populate a (s, None))) = Return
   \<and> snd (populate a (s, None)) = Some (vec_union (real_iov s))
   \<and> snd (populate a (s, None)) = Some (snd (copy_request a s))
   \<and> length (vec_union (real_iov s)) = 0x1000
   \<and> outcome (fst (populate a (s', Some old))) = Exit 1
   \<and> snd (populate a (s', Some old)) = Some old
   \<and> outcome (fst (populate a (mem (fst (populate a (s, None))), snd (populate a (s, None)))))
       = Exit 1
   \<and> snd (populate a (mem (fst (populate a (s, None))), snd (populate a (s, None))))
       = Some (vec_union (real_iov s))
   \<and> trace (fst (populate a (s, None))) =
       [Ev_ioctl_copy \<lparr>dst = iov s, src = a, len = 0x1000, mode = 0\<rparr> (vec_union (real_iov s)) 0]
   \<and> trace (copy_page ret a s) =
       [Ev_ioctl_copy (fst (copy_request a s)) (snd (copy_request a s)) ret]
   \<and> outcome (copy_page ret a s) = (if ret = - 1 then Exit 1 else Return)
   \<and> length (filter is_populate (trace (process e s))) \<le> 1"
proof (intro conjI)
  show "length (filter is_populate (trace (process e s))) \<le> 1"
  proof (cases e rule: process_cases)
    case setup_failed
    with setup_failed_trace [of e is_populate s] show ?thesis
      by (auto simp: list_ex_iff filter_empty_conv)
  next
    case blocked
    then show ?thesis
      by (simp add: process_blocked_handler main_enter_run split: option.split)
  next
    case (bad_read r)
    then show ?thesis by (simp add: process_bad_read)
  next
    case fault
    then show ?thesis
      by (simp add: process_fault main_enter_run fault_trace_def split: option.split)
  qed
qed (simp_all add: populate_fresh_region populate_populated_region length_vec_union
    copy_page_request copy_page_run copy_request_def)

text \<open>
  C4, as stated, fails: the handler does not look at the completion ring. Run on a memory
  in which the completion of the submitted entry is already recorded (\<open>cq_tail\<close> is 1 and
  the entry carries the \<open>user_data\<close> of the submission), it still overwrites the opcode
  and returns without error.
\<close>

theorem mutation_after_completion:
  "cq_tail completed_state = 1 \<and>
   cqe_user_data (cqes completed_state 0) = user_data (sqes completed_state 0) \<and>
   opcode (sqes completed_state 0) = IORING_OP_RECVMSG \<and>
   IORING_OP_RECVMSG \<noteq> IORING_OP_SENDMSG \<and>
   outcome (uffd_thread good_env completed_state) = Return \<and>
   opcode (sqes (mem (uffd_thread good_env completed_state)) 0) = IORING_OP_SENDMSG"
  by (simp add: completed_state_def consumer_post_def prepared_def main_submit_def
      recvmsg_sqe_def uffd_thread_fault good_env_answers sizeof_uffd_msg_def store_opcode_def
      IORING_OP_RECVMSG_def IORING_OP_SENDMSG_def)

text \<open>
  C4, amended: the mutation is unconditional. Whenever the handler's \<open>read\<close> returned a
  whole fault message it stores \<open>IORING_OP_SENDMSG\<close> into \<open>sqes[0].opcode\<close>, and what the
  handler does (its steps, its outcome, its effect on memory) is the same whatever the
  completion tail and the completion entries hold.
\<close>

theorem mutation_unconditional:
  "(uffd_read_ret e = Some sizeof_uffd_msg \<longrightarrow>
      opcode (sqes (mem (uffd_thread e s)) 0) = IORING_OP_SENDMSG \<and>
      list_ex is_mutation (trace (uffd_thread e s)))
   \<and> trace (uffd_thread e (s\<lparr>cq_tail := t, cqes := c\<rparr>)) = trace (uffd_thread e s)
   \<and> outcome (uffd_thread e (s\<lparr>cq_tail := t, cqes := c\<rparr>)) = outcome (uffd_thread e s)
   \<and> mem (uffd_thread e (s\<lparr>cq_tail := t, cqes := c\<rparr>)) =
       (mem (uffd_thread e s))\<lparr>cq_tail := t, cqes := c\<rparr>"
  by (cases e rule: uffd_thread_cases)
    (simp_all add: uffd_thread_blocked uffd_thread_bad_read uffd_thread_fault store_opcode_def)

theorem mutation_unconditional_witness:
  "uffd_read_ret good_env = Some sizeof_uffd_msg \<and>
   opcode (sqes (mem (uffd_thread good_env completed_state)) 0) = IORING_OP_SENDMSG \<and>
   list_ex is_mutation (trace (uffd_thread good_env completed_state))"
  using mutation_unconditional [of good_env completed_state]
  by (simp add: good_env_answers sizeof_uffd_msg_def)

text \<open>
  C5: in every run that ends with status 0, exactly one completion record has been produced
  for the one submitted entry (the run stores one entry, and the completion tail that
  \<open>main\<close> loaded is exactly 1), the record \<open>main\<close> reads is the first completion entry,
  its identity is that of the submitted entry (the \<open>user_data\<close> of the compound literal of
  line 147, which the mutation of the opcode has not touched), and it is read once: the run
  prints exactly one result line, as its last step, the line of the \<open>res\<close> field of that
  entry, and steps and exit status of a run depend on the completion entries only through
  that field.
\<close>

theorem completion_matches_submission:
  "(outcome (process e s) = Exit 0 \<longrightarrow>
      cq_tail (mem (process e s)) = 1 \<and>
      length (filter is_store_sqe (trace (process e s))) = 1 \<and>
      cqe_user_data (cqes (mem (process e s)) 0) =
        user_data (recvmsg_sqe (socket_ret e) (addr_of_msg e)) \<and>
      cqe_user_data (cqes (mem (process e s)) 0) = user_data (sqes (mem (process e s)) 0) \<and>
      sqes (mem (process e s)) 0 =
        (recvmsg_sqe (socket_ret e) (addr_of_msg e))
          \<lparr>opcode := (if uffd_read_ret e = None then IORING_OP_RECVMSG else IORING_OP_SENDMSG)\<rparr> \<and>
      last (trace (process e s)) = Ev_printf (result_line (res (cqes (mem (process e s)) 0))) \<and>
      length (filter is_result (trace (process e s))) = 1)
   \<and> (res (c 0) = res (c' 0) \<longrightarrow>
      trace (process (e\<lparr>posted_cqes := c\<rparr>) s) = trace (process (e\<lparr>posted_cqes := c'\<rparr>) s) \<and>
      outcome (process (e\<lparr>posted_cqes := c\<rparr>) s) = outcome (process (e\<lparr>posted_cqes := c'\<rparr>) s))"
proof (intro conjI impI)
  assume x: "outcome (process e s) = Exit 0"
  then have tail: "posted_cq_tail e = 1"
    by (simp add: outcome_process split: if_splits option.splits)
  note m = mem_process_exit0 [OF x]
  from m show "cq_tail (mem (process e s)) = 1"
    by (simp add: consumer_post_def tail)
  from x show "length (filter is_store_sqe (trace (process e s))) = 1"
  proof (cases rule: exit0_cases)
    case (quiet n)
    then show ?thesis by (simp add: process_blocked_handler main_enter_run)
  next
    case (raced n)
    then show ?thesis by (simp add: process_fault main_enter_run fault_trace_def)
  qed
  from m show "cqe_user_data (cqes (mem (process e s)) 0) =
        user_data (recvmsg_sqe (socket_ret e) (addr_of_msg e))"
    by (simp add: consumer_post_def store_opcode_def prepared_entry)
  from m show "cqe_user_data (cqes (mem (process e s)) 0) = user_data (sqes (mem (process e s)) 0)"
    by (simp add: consumer_post_def store_opcode_def prepared_entry)
  from m show "sqes (mem (process e s)) 0 =
        (recvmsg_sqe (socket_ret e) (addr_of_msg e))
          \<lparr>opcode := (if uffd_read_ret e = None then IORING_OP_RECVMSG else IORING_OP_SENDMSG)\<rparr>"
    by (simp add: consumer_post_def store_opcode_def prepared_entry recvmsg_sqe_def)
  from trace_process_exit0 [OF x] obtain tr n where
    tr: "trace (process e s) =
      tr @ [Ev_printf (Submitted_getevents_done n), Ev_printf (Cq_tail_is 1),
            Ev_printf (result_line (res (posted_cqes e 0)))]"
    and no: "\<not> list_ex is_result tr"
    by blast
  from m tr show "last (trace (process e s)) =
      Ev_printf (result_line (res (cqes (mem (process e s)) 0)))"
    by (simp add: consumer_post_def)
  from no have "filter is_result tr = []"
    by (simp add: list_ex_iff filter_empty_conv)
  with tr show "length (filter is_result (trace (process e s))) = 1"
    by (simp add: result_line_def)
next
  assume r: "res (c 0) = res (c' 0)"
  have ok: "setup_ok (e\<lparr>posted_cqes := c\<rparr>) = setup_ok e"
    "setup_ok (e\<lparr>posted_cqes := c'\<rparr>) = setup_ok e"
    by (simp_all add: setup_ok_def)
  show "trace (process (e\<lparr>posted_cqes := c\<rparr>) s) = trace (process (e\<lparr>posted_cqes := c'\<rparr>) s)"
  proof (cases e rule: process_cases)
    case setup_failed
    then show ?thesis
      by (simp add: process_setup_failed ok main_prepare_def Let_def die_def)
  next
    case blocked
    with r show ?thesis
      by (simp add: process_blocked_handler ok main_enter_run prepared_def split: option.split)
  next
    case (bad_read x)
    then show ?thesis by (simp add: process_bad_read ok prepared_def)
  next
    case fault
    with r show ?thesis
      by (simp add: process_fault ok main_enter_run fault_trace_def split: option.split)
  qed
  show "outcome (process (e\<lparr>posted_cqes := c\<rparr>) s) = outcome (process (e\<lparr>posted_cqes := c'\<rparr>) s)"
    by (simp add: outcome_process setup_ok_def handler_failed_def split: option.split)
qed

theorem completion_matches_submission_witness:
  "outcome (process good_env fresh) = Exit 0 \<and>
   cq_tail (mem (process good_env fresh)) = 1 \<and>
   cqe_user_data (cqes (mem (process good_env fresh)) 0) = 0 \<and>
   user_data (sqes (mem (process good_env fresh)) 0) = 0 \<and>
   last (trace (process good_env fresh)) = Ev_printf (Result 32) \<and>
   res (posted_cqes good_env 0) = res (other_cqes 0) \<and>
   trace (process (good_env\<lparr>posted_cqes := posted_cqes good_env\<rparr>) fresh) =
     trace (process (good_env\<lparr>posted_cqes := other_cqes\<rparr>) fresh)"
proof -
  have a: "outcome (process good_env fresh) = Exit 0"
    by (rule outcome_process_good_env)
  have b: "res (posted_cqes good_env 0) = res (other_cqes 0)"
    by (simp add: good_env_answers other_cqes_def)
  note t = completion_matches_submission [of good_env fresh "posted_cqes good_env" other_cqes]
  from t a have 1: "cq_tail (mem (process good_env fresh)) = 1" by blast
  from t a have "cqe_user_data (cqes (mem (process good_env fresh)) 0) =
      user_data (recvmsg_sqe (socket_ret good_env) (addr_of_msg good_env))" by blast
  then have 2: "cqe_user_data (cqes (mem (process good_env fresh)) 0) = 0"
    by (simp add: recvmsg_sqe_def)
  from t a have "cqe_user_data (cqes (mem (process good_env fresh)) 0) =
      user_data (sqes (mem (process good_env fresh)) 0)" by blast
  with 2 have 3: "user_data (sqes (mem (process good_env fresh)) 0) = 0" by simp
  have 4: "last (trace (process good_env fresh)) = Ev_printf (Result 32)"
    by (simp add: trace_process_good_env)
  from t b have 5: "trace (process (good_env\<lparr>posted_cqes := posted_cqes good_env\<rparr>) fresh) =
     trace (process (good_env\<lparr>posted_cqes := other_cqes\<rparr>) fresh)" by blast
  from a b 1 2 3 4 5 show ?thesis by blast
qed

text \<open>
  C6, as stated, fails: the submission has no capacity check. On a ring of \<open>entries\<close>
  slots that holds \<open>entries\<close> unconsumed submissions, one more submission goes through:
  the tail becomes 11 and the entry in slot 0 is overwritten by the new one.
\<close>

theorem submit_on_full_ring:
  "unat (sq_tail full_ring) - unat (sq_head full_ring) = entries \<and>
   sqes full_ring 0 = first_sqe \<and> second_sqe \<noteq> first_sqe \<and>
   sq_tail (main_submit second_sqe full_ring) = 11 \<and>
   sq_head (main_submit second_sqe full_ring) = 0 \<and>
   sqes (main_submit second_sqe full_ring) 0 = second_sqe"
  by (simp add: full_ring_eq main_submit_def fresh_def entries_def first_sqe_def
      second_sqe_def recvmsg_sqe_def)

text \<open>
  C6, amended: the submission is unconditional. For every memory it writes the entry to
  \<open>sqes[0]\<close>, writes index 0 to slot 0 of the index array and increments the submission
  tail by one, and it has no failure; a run performs it, and calls \<open>io_uring_enter\<close>, at
  most once.
\<close>

theorem submit_unchecked:
  "sqes (main_submit d s) = (sqes s)(0 := d)
   \<and> sq_array (main_submit d s) = (sq_array s)(0 := 0)
   \<and> sq_tail (main_submit d s) = sq_tail s + 1
   \<and> length (filter is_store_sqe (trace (process e s))) \<le> 1
   \<and> length (filter is_submission (trace (process e s))) \<le> 1"
proof (intro conjI)
  show "length (filter is_store_sqe (trace (process e s))) \<le> 1"
  proof (cases e rule: process_cases)
    case setup_failed
    with setup_failed_trace [of e is_store_sqe s] show ?thesis
      by (auto simp: list_ex_iff filter_empty_conv)
  next
    case blocked
    then show ?thesis
      by (simp add: process_blocked_handler main_enter_run split: option.split)
  next
    case (bad_read r)
    then show ?thesis by (simp add: process_bad_read)
  next
    case fault
    then show ?thesis
      by (simp add: process_fault main_enter_run fault_trace_def split: option.split)
  qed
  show "length (filter is_submission (trace (process e s))) \<le> 1"
  proof (cases e rule: process_cases)
    case setup_failed
    with setup_failed_trace [of e is_submission s] show ?thesis
      by (auto simp: list_ex_iff filter_empty_conv)
  next
    case blocked
    then show ?thesis
      by (simp add: process_blocked_handler main_enter_run split: option.split)
  next
    case (bad_read r)
    then show ?thesis by (simp add: process_bad_read)
  next
    case fault
    then show ?thesis
      by (simp add: process_fault main_enter_run fault_trace_def split: option.split)
  qed
qed (simp_all add: main_submit_def)






text \<open>
  C9: the mutation writes only the opcode field of the submitted entry. After the handler,
  every entry of \<open>sqes\<close> differs from its value before at most in \<open>opcode\<close>, so \<open>fd\<close>
  and \<open>addr\<close> of entry 0 are the submitted ones, and nothing else in memory has changed.
  Run on the memory left by the submission of an entry \<open>d\<close>, the handler leaves \<open>d\<close> with
  \<open>IORING_OP_SENDMSG\<close> as opcode when it read a whole fault message, and \<open>d\<close> itself
  otherwise.
\<close>

theorem mutation_writes_only_opcode:
  "(\<forall>i. (sqes (mem (uffd_thread e s)) i)\<lparr>opcode := v\<rparr> = (sqes s i)\<lparr>opcode := v\<rparr>)
   \<and> fd (sqes (mem (uffd_thread e s)) 0) = fd (sqes s 0)
   \<and> addr (sqes (mem (uffd_thread e s)) 0) = addr (sqes s 0)
   \<and> (mem (uffd_thread e s))\<lparr>sqes := sqes s\<rparr> = s
   \<and> sqes (mem (uffd_thread e (main_submit d s))) 0 =
       d\<lparr>opcode := (if uffd_read_ret e = Some sizeof_uffd_msg then IORING_OP_SENDMSG
                     else opcode d)\<rparr>"
  by (simp add: uffd_thread_mem store_opcode_def main_submit_def)

text \<open>
  C10: whenever a run issues \<open>UFFDIO_COPY\<close>, the request asks for \<open>0x1000\<close> bytes, the
  length of the registered region, to be copied to the start of that region, which is the
  address the submitted message names as its \<open>iovec\<close> array; the buffer handed over is
  \<open>0x1000\<close> bytes long, its first 16 bytes are \<open>real_iov\<close> (the address and the 32-byte
  length of the netlink message) and decode back to it, and all bytes after them are zero.
  The handler run on any memory copies \<open>vec\<close> built from the \<open>real_iov\<close> of that memory to
  its \<open>iov\<close>.
\<close>

theorem populate_supplies_real_iov:
  "(Ev_ioctl_copy c bs r \<in> set (trace (process e s)) \<longrightarrow>
      len c = 0x1000 \<and> length bs = 0x1000 \<and> mode c = 0 \<and>
      dst c = iov (mem (process e s)) \<and>
      dst c = msg_iov (msg (mem (process e s))) \<and>
      Ev_uffd_register (dst c) (len c) \<in> set (trace (process e s)) \<and>
      real_iov (mem (process e s)) = \<lparr>iov_base = addr_of_msgbuf e, iov_len = 32\<rparr> \<and>
      take 16 bs = iovec_bytes (real_iov (mem (process e s))) \<and>
      iovec_of_bytes (take 16 bs) = real_iov (mem (process e s)) \<and>
      drop 16 bs = replicate (0x1000 - 16) 0)
   \<and> (Ev_ioctl_copy c bs r \<in> set (trace (uffd_thread e s)) \<longrightarrow>
      len c = 0x1000 \<and> dst c = iov s \<and> bs = vec_union (real_iov s) \<and>
      length bs = 0x1000 \<and> iovec_of_bytes (take 16 bs) = real_iov s \<and>
      drop 16 bs = replicate (0x1000 - 16) 0)"
proof (intro conjI impI)
  assume a: "Ev_ioctl_copy c bs r \<in> set (trace (process e s))"
  note p = populate_in_process [OF a]
  from p have ok: "setup_ok e" and f: "uffd_read_ret e = Some sizeof_uffd_msg"
    by simp_all
  note m = mem_process_fault [OF ok f, of s]
  from p show "len c = 0x1000" "mode c = 0" by simp_all
  from p show "length bs = 0x1000" by (simp add: length_vec_union)
  from p m show "dst c = iov (mem (process e s))" by simp
  from p m show "dst c = msg_iov (msg (mem (process e s)))" by simp
  from p register_in_process [OF ok f, of s]
  show "Ev_uffd_register (dst c) (len c) \<in> set (trace (process e s))" by simp
  from m show "real_iov (mem (process e s)) = \<lparr>iov_base = addr_of_msgbuf e, iov_len = 32\<rparr>"
    by (simp add: sizeof_msgbuf_def)
  from p m show "take 16 bs = iovec_bytes (real_iov (mem (process e s)))"
    by (simp add: take_vec_union)
  from p m show "iovec_of_bytes (take 16 bs) = real_iov (mem (process e s))"
    by (simp add: take_vec_union iovec_of_iovec_bytes)
  from p show "drop 16 bs = replicate (0x1000 - 16) 0"
    by (simp add: drop_vec_union)
next
  assume a: "Ev_ioctl_copy c bs r \<in> set (trace (uffd_thread e s))"
  have b: "c = \<lparr>dst = iov s, src = addr_of_vec e, len = 0x1000, mode = 0\<rparr> \<and>
      bs = vec_union (real_iov s)"
  proof (cases e rule: uffd_thread_cases)
    case blocked
    with a show ?thesis by (simp add: uffd_thread_blocked)
  next
    case (bad x)
    with a show ?thesis by (simp add: uffd_thread_bad_read)
  next
    case fault
    with a show ?thesis by (simp add: uffd_thread_fault)
  qed
  from b show "len c = 0x1000" "dst c = iov s" "bs = vec_union (real_iov s)" by simp_all
  from b show "length bs = 0x1000" by (simp add: length_vec_union)
  from b show "iovec_of_bytes (take 16 bs) = real_iov s"
    by (simp add: take_vec_union iovec_of_iovec_bytes)
  from b show "drop 16 bs = replicate (0x1000 - 16) 0" by (simp add: drop_vec_union)
qed

theorem populate_supplies_real_iov_witness:
  "Ev_ioctl_copy \<lparr>dst = 0x7f0000004000, src = 0x7f0000100000, len = 0x1000, mode = 0\<rparr>
     (vec_union \<lparr>iov_base = 0x7ffc00000200, iov_len = 32\<rparr>) 0
     \<in> set (trace (process good_env fresh)) \<and>
   Ev_ioctl_copy \<lparr>dst = 0x7f0000004000, src = 0x7f0000100000, len = 0x1000, mode = 0\<rparr>
     (vec_union \<lparr>iov_base = 0x7ffc00000200, iov_len = 32\<rparr>) 0
     \<in> set (trace (uffd_thread good_env (prepared good_env fresh))) \<and>
   Ev_uffd_register 0x7f0000004000 0x1000 \<in> set (trace (process good_env fresh)) \<and>
   real_iov (mem (process good_env fresh)) = \<lparr>iov_base = 0x7ffc00000200, iov_len = 32\<rparr> \<and>
   iovec_of_bytes (take 16 (vec_union \<lparr>iov_base = 0x7ffc00000200, iov_len = 32\<rparr>)) =
     \<lparr>iov_base = 0x7ffc00000200, iov_len = 32\<rparr> \<and>
   drop 16 (vec_union \<lparr>iov_base = 0x7ffc00000200, iov_len = 32\<rparr>) = replicate (0x1000 - 16) 0"
proof -
  let ?c = "\<lparr>dst = 0x7f0000004000, src = 0x7f0000100000, len = 0x1000, mode = 0\<rparr> :: uffdio_copy"
  let ?v = "\<lparr>iov_base = 0x7ffc00000200, iov_len = 32\<rparr> :: iovec"
  have a: "Ev_ioctl_copy ?c (vec_union ?v) 0 \<in> set (trace (process good_env fresh))"
    by (simp add: trace_process_good_env fault_trace_def good_env_answers sizeof_msgbuf_def)
  have b: "Ev_ioctl_copy ?c (vec_union ?v) 0
      \<in> set (trace (uffd_thread good_env (prepared good_env fresh)))"
    by (simp add: uffd_thread_fault good_env_answers sizeof_uffd_msg_def prepared_def
        main_submit_def sizeof_msgbuf_def)
  note t = populate_supplies_real_iov [of ?c "vec_union ?v" 0 good_env fresh]
  from t a have r: "real_iov (mem (process good_env fresh)) =
      \<lparr>iov_base = addr_of_msgbuf good_env, iov_len = 32\<rparr>"
    by blast
  from t a have i: "iovec_of_bytes (take 16 (vec_union ?v)) = real_iov (mem (process good_env fresh))"
    by blast
  from t a have d: "drop 16 (vec_union ?v) = replicate (0x1000 - 16) 0"
    by blast
  from t a have "Ev_uffd_register (dst ?c) (len ?c) \<in> set (trace (process good_env fresh))"
    by blast
  then have g: "Ev_uffd_register 0x7f0000004000 0x1000 \<in> set (trace (process good_env fresh))"
    by simp
  from r have r': "real_iov (mem (process good_env fresh)) = ?v"
    by (simp add: good_env_answers)
  from a b g r' i d show ?thesis by simp
qed

end
